theory Spec2Isabelle
  imports Complex_Main "HOL-Library.Word"
begin

section \<open>Common types of the NEST kernel\<close>

text \<open>
  The header \<^verbatim>\<open>nest_types.h\<close> declares \<^verbatim>\<open>port\<close> and \<^verbatim>\<open>rport\<close> as \<^verbatim>\<open>long\<close>:
  a 64-bit two's complement integer, read with \<open>sint\<close>. A C++ \<^verbatim>\<open>int\<close> is a
  32-bit one. A \<^verbatim>\<open>double\<close> is modelled as a real number: the functions of the
  headers only copy such values, and those modelled from the spec add, compare and
  round them exactly. A member whose C++ name ends in an underscore
  carries a prime after it here (\<^verbatim>\<open>S_\<close> is \<open>S_'\<close>), since a constant's
  name cannot end in an underscore.
\<close>

type_synonym port = "64 word"
type_synonym rport = "64 word"
type_synonym cint = "32 word"
type_synonym double = real

text \<open>The exceptions thrown by the two models (name of the exception and its arguments).\<close>

datatype kernel_exception =
    UnknownReceptorType rport string
  | IncompatibleReceptorType rport string string
  | BadProperty string
  | IllegalConnection string
  | NumericalFailure string

section \<open>hh\_cond\_beta\_gap\_traub: data\<close>

text \<open>\<^verbatim>\<open>struct Parameters_\<close>: the independent parameters of the model.\<close>

record Parameters_ =
  g_Na :: double
  g_K :: double
  g_L :: double
  C_m :: double
  E_Na :: double
  E_K :: double
  E_L :: double
  V_T :: double
  E_ex :: double
  E_in :: double
  tau_rise_ex :: double
  tau_decay_ex :: double
  tau_rise_in :: double
  tau_decay_in :: double
  t_ref_' :: double
  I_e :: double

text \<open>
  \<^verbatim>\<open>enum StateVecElems\<close> and \<^verbatim>\<open>struct State_\<close>: the array \<^verbatim>\<open>y_\<close> has one cell
  for each of the eight symbolic indices, so it is a total function on them.
\<close>

datatype StateVecElems = V_M | HH_M | HH_H | HH_N | DG_EXC | G_EXC | DG_INH | G_INH

record State_ =
  y_' :: "StateVecElems \<Rightarrow> double"
  r_' :: cint

text \<open>\<^verbatim>\<open>struct Variables_\<close>: the internal variables set by calibration.\<close>

record Variables_ =
  PSConInit_E :: double
  PSConInit_I :: double
  refractory_counts_' :: cint
  U_old_' :: double

text \<open>
  \<^verbatim>\<open>struct Buffers_\<close>. The logger, the ring buffers and the four GSL objects
  (\<^verbatim>\<open>s_\<close>, \<^verbatim>\<open>c_\<close>, \<^verbatim>\<open>e_\<close>, \<^verbatim>\<open>sys_\<close>, kept together as \<open>gsl_'\<close>) belong to other
  headers and stay abstract.
\<close>

record ('logger, 'ring, 'gsl) Buffers_ =
  logger_' :: 'logger
  spike_exc_' :: 'ring
  spike_inh_' :: 'ring
  currents_' :: 'ring
  gsl_' :: 'gsl
  step_' :: double
  IntegrationStep_' :: double
  lag_' :: "64 word"
  last_y_values :: "double list"
  sumj_g_ij_' :: double
  interpolation_coefficients :: "double list"
  I_stim_' :: double

text \<open>
  The neuron object: the four member structs, the part inherited from
  \<^verbatim>\<open>Archiving_Node\<close> (abstract) and the value of \<^verbatim>\<open>get_name()\<close>.
\<close>

record ('arch, 'logger, 'ring, 'gsl) hh_cond_beta_gap_traub =
  name :: string
  archiving_node :: 'arch
  P_' :: Parameters_
  S_' :: State_
  V_' :: Variables_
  B_' :: "('logger, 'ring, 'gsl) Buffers_"

section \<open>hh\_cond\_beta\_gap\_traub: the inline member functions\<close>

text \<open>
  A member function is a function from the object before the call to the outcome
  of the call and the object after it. A call that throws has the exception as
  its outcome; the object it returns is the object as the throw left it.

  \<^verbatim>\<open>update_\<close> is only declared in the header, so \<^verbatim>\<open>update\<close> and \<^verbatim>\<open>wfr_update\<close>
  take it as their first argument \<open>upd\<close>.
\<close>

definition update ::
  "('t \<Rightarrow> 64 word \<Rightarrow> 64 word \<Rightarrow> bool \<Rightarrow> ('arch, 'logger, 'ring, 'gsl) hh_cond_beta_gap_traub
      \<Rightarrow> (kernel_exception + bool) \<times> ('arch, 'logger, 'ring, 'gsl) hh_cond_beta_gap_traub)
   \<Rightarrow> 't \<Rightarrow> 64 word \<Rightarrow> 64 word \<Rightarrow> ('arch, 'logger, 'ring, 'gsl) hh_cond_beta_gap_traub
   \<Rightarrow> kernel_exception option \<times> ('arch, 'logger, 'ring, 'gsl) hh_cond_beta_gap_traub"
where
  "update upd origin from to n =
     (case upd origin from to False n of
        (Inl e, n') \<Rightarrow> (Some e, n')
      | (Inr wfr_tol_exceeded, n') \<Rightarrow> (None, n'))"

definition wfr_update ::
  "('t \<Rightarrow> 64 word \<Rightarrow> 64 word \<Rightarrow> bool \<Rightarrow> ('arch, 'logger, 'ring, 'gsl) hh_cond_beta_gap_traub
      \<Rightarrow> (kernel_exception + bool) \<times> ('arch, 'logger, 'ring, 'gsl) hh_cond_beta_gap_traub)
   \<Rightarrow> 't \<Rightarrow> 64 word \<Rightarrow> 64 word \<Rightarrow> ('arch, 'logger, 'ring, 'gsl) hh_cond_beta_gap_traub
   \<Rightarrow> (kernel_exception + bool) \<times> ('arch, 'logger, 'ring, 'gsl) hh_cond_beta_gap_traub"
where
  "wfr_update upd origin from to n =
     (let old_state = S_' n in
      case upd origin from to True n of
        (Inl e, n') \<Rightarrow> (Inl e, n')
      | (Inr wfr_tol_exceeded, n') \<Rightarrow> (Inr (\<not> wfr_tol_exceeded), n'\<lparr>S_' := old_state\<rparr>))"

text \<open>
  The four overloads of \<^verbatim>\<open>handles_test_event\<close>, selected by the type of the event.
  \<^verbatim>\<open>connect_logging_device\<close> is a member of the logger class, which is not part of
  this header: it is the argument \<open>connect\<close>, and may change the logger and throw.
\<close>

datatype 'dlr test_event = SpikeEvent | CurrentEvent | DataLoggingRequest 'dlr | GapJunctionEvent

fun handles_test_event ::
  "('dlr \<Rightarrow> 'logger \<Rightarrow> (kernel_exception + port) \<times> 'logger)
   \<Rightarrow> 'dlr test_event \<Rightarrow> rport \<Rightarrow> ('arch, 'logger, 'ring, 'gsl) hh_cond_beta_gap_traub
   \<Rightarrow> (kernel_exception + port) \<times> ('arch, 'logger, 'ring, 'gsl) hh_cond_beta_gap_traub"
where
  "handles_test_event connect SpikeEvent receptor_type n =
     (if receptor_type \<noteq> 0 then (Inl (UnknownReceptorType receptor_type (name n)), n)
      else (Inr 0, n))"
| "handles_test_event connect CurrentEvent receptor_type n =
     (if receptor_type \<noteq> 0 then (Inl (UnknownReceptorType receptor_type (name n)), n)
      else (Inr 0, n))"
| "handles_test_event connect (DataLoggingRequest dlr) receptor_type n =
     (if receptor_type \<noteq> 0 then (Inl (UnknownReceptorType receptor_type (name n)), n)
      else (case connect dlr (logger_' (B_' n)) of
              (res, logger') \<Rightarrow> (res, n\<lparr>B_' := (B_' n)\<lparr>logger_' := logger'\<rparr>\<rparr>)))"
| "handles_test_event connect GapJunctionEvent receptor_type n =
     (if receptor_type \<noteq> 0 then (Inl (UnknownReceptorType receptor_type (name n)), n)
      else (Inr 0, n))"

text \<open>
  \<^verbatim>\<open>set_status\<close>. \<^verbatim>\<open>Parameters_::set\<close> and \<^verbatim>\<open>State_::set\<close> work on the temporary
  copies and may throw; \<^verbatim>\<open>Archiving_Node::set_status\<close> works on the inherited part
  of the object and may throw; \<^verbatim>\<open>calibrate\<close> works on the whole object. All four are
  defined outside the header and are arguments here.
\<close>

definition set_status ::
  "('dict \<Rightarrow> Parameters_ \<Rightarrow> kernel_exception + Parameters_)
   \<Rightarrow> ('dict \<Rightarrow> Parameters_ \<Rightarrow> State_ \<Rightarrow> kernel_exception + State_)
   \<Rightarrow> ('dict \<Rightarrow> 'arch \<Rightarrow> kernel_exception option \<times> 'arch)
   \<Rightarrow> (('arch, 'logger, 'ring, 'gsl) hh_cond_beta_gap_traub
        \<Rightarrow> kernel_exception option \<times> ('arch, 'logger, 'ring, 'gsl) hh_cond_beta_gap_traub)
   \<Rightarrow> 'dict \<Rightarrow> ('arch, 'logger, 'ring, 'gsl) hh_cond_beta_gap_traub
   \<Rightarrow> kernel_exception option \<times> ('arch, 'logger, 'ring, 'gsl) hh_cond_beta_gap_traub"
where
  "set_status Parameters_set State_set Archiving_Node_set_status calibrate_fn d n =
     (case Parameters_set d (P_' n) of
        Inl e \<Rightarrow> (Some e, n)
      | Inr ptmp \<Rightarrow>
          (case State_set d ptmp (S_' n) of
             Inl e \<Rightarrow> (Some e, n)
           | Inr stmp \<Rightarrow>
               (case Archiving_Node_set_status d (archiving_node n) of
                  (Some e, arch') \<Rightarrow> (Some e, n\<lparr>archiving_node := arch'\<rparr>)
                | (None, arch') \<Rightarrow>
                    calibrate_fn (n\<lparr>archiving_node := arch', P_' := ptmp, S_' := stmp\<rparr>))))"

section \<open>cm\_main: the compartmental model\<close>

text \<open>
  The members of \<^verbatim>\<open>cm_main\<close>. The compartment tree, the synapse objects and the
  logger are classes of other headers and are kept abstract; \<open>cm_name\<close> is the
  value of \<^verbatim>\<open>get_name()\<close>.
\<close>

record ('tree, 'syn, 'logger) cm_main =
  cm_name :: string
  m_c_tree :: 'tree
  syn_receptors :: "'syn list"
  cm_logger_' :: 'logger
  V_th_' :: double

text \<open>
  \<^verbatim>\<open>cm_main::handles_test_event( SpikeEvent&, rport )\<close>. The size of the vector is
  cast to \<^verbatim>\<open>port\<close> before the comparison, which is signed.
\<close>

definition cm_handles_test_event_SpikeEvent ::
  "rport \<Rightarrow> ('tree, 'syn, 'logger) cm_main \<Rightarrow> kernel_exception + port"
where
  "cm_handles_test_event_SpikeEvent receptor_type n =
     (if receptor_type <s 0 \<or> \<not> (receptor_type <s (of_nat (length (syn_receptors n)) :: port))
      then Inl (IncompatibleReceptorType receptor_type (cm_name n) ''SpikeEvent'')
      else Inr receptor_type)"

text \<open>A neuron without receptors, and one with three, for the examples.\<close>

definition cm_empty :: "(unit, nat, unit) cm_main" where
  "cm_empty = \<lparr>cm_name = ''cm_main'', m_c_tree = (), syn_receptors = [],
               cm_logger_' = (), V_th_' = -55\<rparr>"

definition cm_three :: "(unit, nat, unit) cm_main" where
  "cm_three = cm_empty\<lparr>syn_receptors := [0, 1, 2]\<rparr>"

section \<open>hh\_cond\_beta\_gap\_traub: the operations declared in the header only\<close>

text \<open>
  For the functions of this section the ring buffers are read as functions from
  the lag to the value accumulated for that step.
\<close>

type_synonym ('arch, 'logger, 'gsl) neuron =
  "('arch, 'logger, 64 word \<Rightarrow> double, 'gsl) hh_cond_beta_gap_traub"

text \<open>
  Modelled from the spec: the body of \<^verbatim>\<open>calibrate\<close> is missing (the header only
  declares it). Section 4.1: given the Parameters and the simulation step size,
  recompute the two normalisation impulses and the integer refractory-step count
  (duration divided by step size, rounded to the nearest step, error if the result
  is not a whole number of steps within tolerance); overwrite Variables only.
  Section 7: on the error, raised here as BadProperty, the old Variables are
  retained. The body of
  \<^verbatim>\<open>get_normalisation_factor\<close> is missing too and the spec gives no formula for it,
  nor a value for the tolerance: both are arguments.
\<close>

definition calibrate ::
  "(double \<Rightarrow> double \<Rightarrow> double) \<Rightarrow> double
   \<Rightarrow> ('arch, 'logger, 'ring, 'gsl) hh_cond_beta_gap_traub
   \<Rightarrow> kernel_exception option \<times> ('arch, 'logger, 'ring, 'gsl) hh_cond_beta_gap_traub"
where
  "calibrate get_normalisation_factor tolerance n =
     (let steps = t_ref_' (P_' n) / step_' (B_' n);
          counts = round steps
      in if \<bar>steps - of_int counts\<bar> \<le> tolerance
         then (None,
               n\<lparr>V_' := (V_' n)
                  \<lparr>PSConInit_E := get_normalisation_factor (tau_rise_ex (P_' n)) (tau_decay_ex (P_' n)),
                   PSConInit_I := get_normalisation_factor (tau_rise_in (P_' n)) (tau_decay_in (P_' n)),
                   refractory_counts_' := of_int counts\<rparr>\<rparr>)
         else (Some (BadProperty ''Refractory time must be a multiple of the step size.''), n))"

text \<open>
  Modelled from the spec: the body of \<^verbatim>\<open>update_\<close> is missing (the header only
  declares it). The definitions from here to \<open>update_'\<close> follow sections 2 and 4.2
  to 4.5.

  Section 4.2, the injector: the spike weights of the step are added to the jump
  component of the excitatory and of the inhibitory pair, scaled by the
  normalisation impulse, and the current of the step becomes the drive.
\<close>

definition inject ::
  "64 word \<Rightarrow> ('arch, 'logger, 'gsl) neuron \<Rightarrow> ('arch, 'logger, 'gsl) neuron"
where
  "inject lag n =
     n\<lparr>S_' := (S_' n)\<lparr>y_' := (y_' (S_' n))
            (DG_EXC := y_' (S_' n) DG_EXC + spike_exc_' (B_' n) lag * PSConInit_E (V_' n),
             DG_INH := y_' (S_' n) DG_INH + spike_inh_' (B_' n) lag * PSConInit_I (V_' n))\<rparr>,
       B_' := (B_' n)\<lparr>I_stim_' := currents_' (B_' n) lag\<rparr>\<rparr>"

text \<open>
  Modelled from the spec: section 4.4, the detector and the refractory state
  machine, one step boundary. Refractory is a positive counter: it decrements and
  detection is skipped. Otherwise the neuron is Active: a spike is emitted when the
  potential is at or above the threshold offset plus the margin (30 mV in the
  header's note) and below the stored potential of the previous step; the counter
  is then set to the calibrated count. The result says whether a spike is emitted.
\<close>

definition spike_detection ::
  "('arch, 'logger, 'ring, 'gsl) hh_cond_beta_gap_traub
   \<Rightarrow> bool \<times> ('arch, 'logger, 'ring, 'gsl) hh_cond_beta_gap_traub"
where
  "spike_detection n =
     (if 0 <s r_' (S_' n)
      then (False, n\<lparr>S_' := (S_' n)\<lparr>r_' := r_' (S_' n) - 1\<rparr>\<rparr>)
      else if V_T (P_' n) + 30 \<le> y_' (S_' n) V_M \<and> y_' (S_' n) V_M < U_old_' (V_' n)
      then (True, n\<lparr>S_' := (S_' n)\<lparr>r_' := refractory_counts_' (V_' n)\<rparr>\<rparr>)
      else (False, n))"

text \<open>
  Modelled from the spec: the start of a step of the update driver (section 2:
  injector first). The potential reached by the previous step is stored in the
  Variables for the detector (section 3), the lag is remembered in the Buffers,
  and the input of the step is injected.
\<close>

definition begin_step ::
  "64 word \<Rightarrow> ('arch, 'logger, 'gsl) neuron \<Rightarrow> ('arch, 'logger, 'gsl) neuron"
where
  "begin_step lag n =
     inject lag (n\<lparr>V_' := (V_' n)\<lparr>U_old_' := y_' (S_' n) V_M\<rparr>,
                   B_' := (B_' n)\<lparr>lag_' := lag\<rparr>\<rparr>)"

text \<open>
  Modelled from the spec: the integrator lands on the step boundary (section
  4.3): the state vector it returns replaces the old one, and the adaptive step
  size it reached is kept in the Buffers (section 3).
\<close>

definition accept_step ::
  "(StateVecElems \<Rightarrow> double) \<Rightarrow> double
   \<Rightarrow> ('arch, 'logger, 'ring, 'gsl) hh_cond_beta_gap_traub
   \<Rightarrow> ('arch, 'logger, 'ring, 'gsl) hh_cond_beta_gap_traub"
where
  "accept_step y' h' n =
     n\<lparr>S_' := (S_' n)\<lparr>y_' := y'\<rparr>, B_' := (B_' n)\<lparr>IntegrationStep_' := h'\<rparr>\<rparr>"

text \<open>
  Modelled from the spec: one step of the update driver (section 2: injector,
  integrator, detector). The integrator of section 4.3 is the argument
  \<open>integrate\<close>: its sub-steps are invisible to the caller, it returns the state
  vector at the step boundary with the new adaptive step size, or \<open>None\<close> when no
  sub-step above the minimum size is accepted, and then the step fails. A
  committing pass runs the detector and emits the spike through \<open>emit\<close>; a
  relaxation pass (section 4.5) records its trajectory sample and compares it with
  the previous iterate through \<open>record_iterate\<close>, which says whether the tolerance
  is exceeded.
\<close>

definition update_step ::
  "(('arch, 'logger, 'gsl) neuron \<Rightarrow> ((StateVecElems \<Rightarrow> double) \<times> double) option)
   \<Rightarrow> ('t \<Rightarrow> 64 word \<Rightarrow> 'arch \<Rightarrow> 'arch)
   \<Rightarrow> (64 word \<Rightarrow> ('arch, 'logger, 'gsl) neuron \<Rightarrow> bool \<times> ('arch, 'logger, 'gsl) neuron)
   \<Rightarrow> 't \<Rightarrow> bool \<Rightarrow> 64 word \<Rightarrow> ('arch, 'logger, 'gsl) neuron
   \<Rightarrow> (kernel_exception + bool) \<times> ('arch, 'logger, 'gsl) neuron"
where
  "update_step integrate emit record_iterate origin called_from_wfr_update lag n =
     (let n1 = begin_step lag n
      in case integrate n1 of
           None \<Rightarrow> (Inl (NumericalFailure (name n1)), n1)
         | Some (y', h') \<Rightarrow>
             (let n2 = accept_step y' h' n1
              in if called_from_wfr_update
                 then (case record_iterate lag n2 of (exceeded, n3) \<Rightarrow> (Inr exceeded, n3))
                 else (case spike_detection n2 of
                         (spike, n3) \<Rightarrow>
                           (Inr False,
                            if spike
                            then n3\<lparr>archiving_node := emit origin lag (archiving_node n3)\<rparr>
                            else n3))))"

text \<open>
  Modelled from the spec: the loop of the update driver over the steps
  \<open>from \<le> lag < to\<close> of the slice. A failed step ends the pass with its
  exception; otherwise the pass reports whether any step exceeded the tolerance.
\<close>

function update_loop ::
  "(('arch, 'logger, 'gsl) neuron \<Rightarrow> ((StateVecElems \<Rightarrow> double) \<times> double) option)
   \<Rightarrow> ('t \<Rightarrow> 64 word \<Rightarrow> 'arch \<Rightarrow> 'arch)
   \<Rightarrow> (64 word \<Rightarrow> ('arch, 'logger, 'gsl) neuron \<Rightarrow> bool \<times> ('arch, 'logger, 'gsl) neuron)
   \<Rightarrow> 't \<Rightarrow> bool \<Rightarrow> 64 word \<Rightarrow> 64 word \<Rightarrow> bool \<Rightarrow> ('arch, 'logger, 'gsl) neuron
   \<Rightarrow> (kernel_exception + bool) \<times> ('arch, 'logger, 'gsl) neuron"
where
  "update_loop integrate emit record_iterate origin called_from_wfr_update lag to
       wfr_tol_exceeded n =
     (if lag <s to
      then (case update_step integrate emit record_iterate origin called_from_wfr_update lag n of
              (Inl e, n') \<Rightarrow> (Inl e, n')
            | (Inr exceeded, n') \<Rightarrow>
                update_loop integrate emit record_iterate origin called_from_wfr_update
                  (lag + 1) to (wfr_tol_exceeded \<or> exceeded) n')
      else (Inr wfr_tol_exceeded, n))"
  by pat_completeness auto

termination update_loop
proof (relation "measure (\<lambda>(integrate, emit, record_iterate, origin, wfr, lag, to, acc, n).
                            nat (sint to - sint lag))", goal_cases)
  case 1
  show ?case by simp
next
  case (2 integrate emit record_iterate origin wfr lag to acc n x1 x2 b)
  then have below: "sint lag < sint to" by (simp add: word_sless_alt)
  moreover have "sint to < 2 ^ 63" using sint_less [of to] by simp
  moreover have "- (2 ^ 63) \<le> sint lag" using sint_ge [of lag] by simp
  ultimately have "- (2 ^ 63) \<le> sint lag + 1" "sint lag + 1 < 2 ^ 63" by simp_all
  then have "sint (lag + 1) = sint lag + 1"
    by (simp add: sint_word_ariths signed_take_bit_int_eq_self)
  with below show ?case by simp
qed

declare update_loop.simps [simp del]

text \<open>
  Modelled from the spec: \<^verbatim>\<open>update_\<close> with the signature of the header. A pass
  starts with the tolerance not exceeded.
\<close>

definition update_' ::
  "(('arch, 'logger, 'gsl) neuron \<Rightarrow> ((StateVecElems \<Rightarrow> double) \<times> double) option)
   \<Rightarrow> ('t \<Rightarrow> 64 word \<Rightarrow> 'arch \<Rightarrow> 'arch)
   \<Rightarrow> (64 word \<Rightarrow> ('arch, 'logger, 'gsl) neuron \<Rightarrow> bool \<times> ('arch, 'logger, 'gsl) neuron)
   \<Rightarrow> 't \<Rightarrow> 64 word \<Rightarrow> 64 word \<Rightarrow> bool \<Rightarrow> ('arch, 'logger, 'gsl) neuron
   \<Rightarrow> (kernel_exception + bool) \<times> ('arch, 'logger, 'gsl) neuron"
where
  "update_' integrate emit record_iterate origin from to called_from_wfr_update n =
     update_loop integrate emit record_iterate origin called_from_wfr_update from to False n"

section \<open>Concrete instances\<close>

text \<open>
  A neuron and instances of the functions that the operations above take as
  arguments, on which the operations are evaluated below. The inherited part keeps
  one property of the archiving node and the lags of the spikes sent; the logger
  is the list of the devices connected to it.
\<close>

record example_archive =
  tau_minus :: double
  spike_lags :: "64 word list"

type_synonym example_neuron_type = "(example_archive, nat list, unit) neuron"

definition example_parameters :: Parameters_ where
  "example_parameters =
     \<lparr>g_Na = 20000, g_K = 6000, g_L = 10, C_m = 200, E_Na = 50, E_K = - 90, E_L = - 60,
      V_T = - 50, E_ex = 0, E_in = - 80, tau_rise_ex = 1 / 2, tau_decay_ex = 5,
      tau_rise_in = 1 / 2, tau_decay_in = 10, t_ref_' = 2, I_e = 0\<rparr>"

definition example_state :: State_ where
  "example_state = \<lparr>y_' = (\<lambda>elem. 0)(V_M := - 15), r_' = 0\<rparr>"

definition example_neuron :: example_neuron_type where
  "example_neuron =
     \<lparr>name = ''hh_cond_beta_gap_traub'',
      archiving_node = \<lparr>tau_minus = 20, spike_lags = []\<rparr>,
      P_' = example_parameters,
      S_' = example_state,
      V_' = \<lparr>PSConInit_E = 1, PSConInit_I = 1, refractory_counts_' = 2, U_old_' = 0\<rparr>,
      B_' = \<lparr>logger_' = [], spike_exc_' = (\<lambda>lag. 0), spike_inh_' = (\<lambda>lag. 0),
             currents_' = (\<lambda>lag. 0), gsl_' = (), step_' = 1 / 10, IntegrationStep_' = 1 / 10,
             lag_' = 0, last_y_values = [- 15, - 15], sumj_g_ij_' = 0,
             interpolation_coefficients = [], I_stim_' = 0\<rparr>\<rparr>"

text \<open>
  The same neuron two steps before the end of its refractory period, and the same
  neuron under a step size of which the refractory time is no multiple.
\<close>

definition refractory_neuron :: example_neuron_type where
  "refractory_neuron = example_neuron\<lparr>S_' := example_state\<lparr>r_' := 2\<rparr>\<rparr>"

definition coarse_neuron :: example_neuron_type where
  "coarse_neuron = example_neuron\<lparr>B_' := (B_' example_neuron)\<lparr>step_' := 3 / 10\<rparr>\<rparr>"

text \<open>The same neuron with a refractory time of -2 ms in its Parameters.\<close>

definition negative_neuron :: example_neuron_type where
  "negative_neuron = example_neuron\<lparr>P_' := example_parameters\<lparr>t_ref_' := - 2\<rparr>\<rparr>"

text \<open>
  An integrator under which the potential falls by 1 mV a step, and one that does
  the same but finds no accepted sub-step once the potential is below -15 mV.
\<close>

definition falling_integrate ::
  "example_neuron_type \<Rightarrow> ((StateVecElems \<Rightarrow> double) \<times> double) option" where
  "falling_integrate n =
     Some ((y_' (S_' n))(V_M := y_' (S_' n) V_M - 1), IntegrationStep_' (B_' n))"

definition failing_integrate ::
  "example_neuron_type \<Rightarrow> ((StateVecElems \<Rightarrow> double) \<times> double) option" where
  "failing_integrate n = (if y_' (S_' n) V_M < - 15 then None else falling_integrate n)"

definition example_emit :: "unit \<Rightarrow> 64 word \<Rightarrow> example_archive \<Rightarrow> example_archive" where
  "example_emit origin lag a = a\<lparr>spike_lags := spike_lags a @ [lag]\<rparr>"

definition example_record_iterate ::
  "64 word \<Rightarrow> example_neuron_type \<Rightarrow> bool \<times> example_neuron_type" where
  "example_record_iterate lag n =
     (let i = nat (sint lag); v = y_' (S_' n) V_M
      in if i < length (last_y_values (B_' n))
         then (1 / 10000 < \<bar>v - last_y_values (B_' n) ! i\<bar>,
               n\<lparr>B_' := (B_' n)\<lparr>last_y_values := (last_y_values (B_' n))[i := v]\<rparr>\<rparr>)
         else (True, n))"

text \<open>
  Stand-ins for the setters: a dictionary is a list of pairs of a name and a value;
  the capacitance and the time constant of the archiving node must be positive,
  the activation variable non-negative.
\<close>

definition example_Parameters_set ::
  "(string \<times> double) list \<Rightarrow> Parameters_ \<Rightarrow> kernel_exception + Parameters_" where
  "example_Parameters_set d p =
     (case map_of d ''C_m'' of
        None \<Rightarrow> Inr p
      | Some c \<Rightarrow>
          if c \<le> 0 then Inl (BadProperty ''Capacitance must be strictly positive.'')
          else Inr (p\<lparr>C_m := c\<rparr>))"

definition example_State_set ::
  "(string \<times> double) list \<Rightarrow> Parameters_ \<Rightarrow> State_ \<Rightarrow> kernel_exception + State_" where
  "example_State_set d p s =
     (let s1 = (case map_of d ''V_m'' of
                  None \<Rightarrow> s
                | Some v \<Rightarrow> s\<lparr>y_' := (y_' s)(V_M := v)\<rparr>);
          s2 = (case map_of d ''Act_m'' of
                  None \<Rightarrow> s1
                | Some m \<Rightarrow> s1\<lparr>y_' := (y_' s1)(HH_M := m)\<rparr>)
      in if y_' s2 HH_M < 0
         then Inl (BadProperty ''All (in)activation variables must be non-negative.'')
         else Inr s2)"

definition example_Archiving_Node_set_status ::
  "(string \<times> double) list \<Rightarrow> example_archive \<Rightarrow> kernel_exception option \<times> example_archive"
where
  "example_Archiving_Node_set_status d a =
     (case map_of d ''tau_minus'' of
        None \<Rightarrow> (None, a)
      | Some t \<Rightarrow>
          if t \<le> 0 then (Some (BadProperty ''All time constants must be strictly positive.''), a)
          else (None, a\<lparr>tau_minus := t\<rparr>))"

definition example_normalisation_factor :: "double \<Rightarrow> double \<Rightarrow> double" where
  "example_normalisation_factor tau_rise tau_decay = 1 / tau_rise - 1 / tau_decay"

text \<open>
  A stand-in for \<^verbatim>\<open>connect_logging_device\<close>: a device is connected once, and the
  port returned is the number of devices connected so far.
\<close>

definition example_connect ::
  "nat \<Rightarrow> nat list \<Rightarrow> (kernel_exception + port) \<times> nat list" where
  "example_connect dlr devices =
     (if dlr \<in> set devices
      then (Inl (IllegalConnection ''Each multimeter can only be connected once to a given node.''),
            devices)
      else (Inr (of_nat (length (devices @ [dlr]))), devices @ [dlr]))"

section \<open>Facts used by several properties\<close>

lemmas example_defs =
  example_neuron_def example_state_def example_parameters_def falling_integrate_def
  failing_integrate_def example_emit_def example_record_iterate_def refractory_neuron_def
  coarse_neuron_def negative_neuron_def

lemmas setter_defs =
  example_Parameters_set_def example_State_set_def example_Archiving_Node_set_status_def

lemma begin_step_fields:
  "r_' (S_' (begin_step lag n)) = r_' (S_' n)"
  "y_' (S_' (begin_step lag n)) V_M = y_' (S_' n) V_M"
  "U_old_' (V_' (begin_step lag n)) = y_' (S_' n) V_M"
  "refractory_counts_' (V_' (begin_step lag n)) = refractory_counts_' (V_' n)"
  "P_' (begin_step lag n) = P_' n"
  "archiving_node (begin_step lag n) = archiving_node n"
  "name (begin_step lag n) = name n"
  by (simp_all add: begin_step_def inject_def)

lemma update_step_fail:
  assumes "integrate (begin_step lag n) = None"
  shows "update_step integrate emit record_iterate origin wfr lag n
           = (Inl (NumericalFailure (name n)), begin_step lag n)"
  using assms by (simp add: update_step_def begin_step_fields)

lemma spike_detection_frame:
  "archiving_node (snd (spike_detection m)) = archiving_node m"
  "P_' (snd (spike_detection m)) = P_' m"
  "V_' (snd (spike_detection m)) = V_' m"
  "B_' (snd (spike_detection m)) = B_' m"
  "name (snd (spike_detection m)) = name m"
  "y_' (S_' (snd (spike_detection m))) = y_' (S_' m)"
  by (simp_all add: spike_detection_def)

lemma accept_step_fields:
  "archiving_node (accept_step y' h' m) = archiving_node m"
  "P_' (accept_step y' h' m) = P_' m"
  "V_' (accept_step y' h' m) = V_' m"
  "name (accept_step y' h' m) = name m"
  "r_' (S_' (accept_step y' h' m)) = r_' (S_' m)"
  "y_' (S_' (accept_step y' h' m)) = y'"
  by (simp_all add: accept_step_def)

lemma update_step_commit:
  assumes "integrate (begin_step lag n) = Some (y', h')"
  shows "update_step integrate emit record_iterate origin False lag n
           = (Inr False,
              if fst (spike_detection (accept_step y' h' (begin_step lag n)))
              then (snd (spike_detection (accept_step y' h' (begin_step lag n))))
                     \<lparr>archiving_node := emit origin lag (archiving_node n)\<rparr>
              else snd (spike_detection (accept_step y' h' (begin_step lag n))))"
  using assms
  proof -
  let ?m = "accept_step y' h' (begin_step lag n)"
  have "archiving_node (snd (spike_detection ?m)) = archiving_node n"
    by (simp add: spike_detection_frame accept_step_fields begin_step_fields)
  with assms show ?thesis
    by (simp add: update_step_def Let_def split_beta)
qed






lemma update_loop_split:
  assumes "lag \<le>s mid" and "mid \<le>s to"
  shows "update_loop integrate emit record_iterate origin wfr lag to acc n
           = (case update_loop integrate emit record_iterate origin wfr lag mid acc n of
                (Inl e, n') \<Rightarrow> (Inl e, n')
              | (Inr acc', n') \<Rightarrow>
                  update_loop integrate emit record_iterate origin wfr mid to acc' n')"
  using assms
proof (induction integrate emit record_iterate origin wfr lag mid acc n rule: update_loop.induct)
  case (1 integrate emit record_iterate origin wfr lag mid acc n)
  show ?case
  proof (cases "lag <s mid")
    case False
    with "1.prems" have "sint lag = sint mid" by (simp add: word_sless_alt word_sle_eq)
    then have "lag = mid" by (rule signed_word_eqI)
    then show ?thesis by (simp add: update_loop.simps [of _ _ _ _ _ mid mid])
  next
    case True
    with "1.prems" have below: "lag <s to" by (simp add: word_sless_alt word_sle_eq)
    have "sint lag < sint mid" using True by (simp add: word_sless_alt)
    moreover have "sint mid < 2 ^ 63" using sint_less [of mid] by simp
    moreover have "- (2 ^ 63) \<le> sint lag" using sint_ge [of lag] by simp
    ultimately have "- (2 ^ 63) \<le> sint lag + 1" "sint lag + 1 < 2 ^ 63" by simp_all
    then have "sint (lag + 1) = sint lag + 1"
      by (simp add: sint_word_ariths signed_take_bit_int_eq_self)
    with \<open>sint lag < sint mid\<close> have next_le: "lag + 1 \<le>s mid" by (simp add: word_sle_eq)
    obtain res n' where st: "update_step integrate emit record_iterate origin wfr lag n = (res, n')"
      by (cases "update_step integrate emit record_iterate origin wfr lag n")
    show ?thesis
    proof (cases res)
      case (Inl e)
      with True below st show ?thesis
        by (simp add: update_loop.simps [of _ _ _ _ _ lag])
    next
      case (Inr exceeded)
      from "1.IH" [OF True st [symmetric] Inr next_le "1.prems"(2)] True below st Inr
      show ?thesis
        by (simp add: update_loop.simps [of _ _ _ _ _ lag])
    qed
  qed
qed

lemmas step_defs =
  update_'_def update_loop.simps update_step_def begin_step_def accept_step_def inject_def
  spike_detection_def Let_def word_sless_alt

lemma ex_wfr_pass:
  "fst (update_' falling_integrate example_emit example_record_iterate () 0 2 True
          example_neuron) = Inr True"
  by (simp add: step_defs example_defs)

section \<open>The parameter interface\<close>

text \<open>
  Claim C1, as the code has it. When \<^verbatim>\<open>Parameters_::set\<close>, \<^verbatim>\<open>State_::set\<close> or
  \<^verbatim>\<open>Archiving_Node::set_status\<close> throws, the call ends with that exception and the
  Parameters and the State of the neuron are the ones before the call. When all
  three succeed, the new Parameters and State are committed and \<^verbatim>\<open>calibrate\<close> runs
  on the object that holds them.
\<close>

theorem set_status_commit_or_keep:
  "(Parameters_set d (P_' n) = Inl e1
      \<longrightarrow> set_status Parameters_set State_set Archiving_Node_set_status calibrate_fn d n
            = (Some e1, n))
   \<and> (Parameters_set d (P_' n) = Inr ptmp \<and> State_set d ptmp (S_' n) = Inl e2
      \<longrightarrow> set_status Parameters_set State_set Archiving_Node_set_status calibrate_fn d n
            = (Some e2, n))
   \<and> (Parameters_set d (P_' n) = Inr ptmp \<and> State_set d ptmp (S_' n) = Inr stmp
        \<and> Archiving_Node_set_status d (archiving_node n) = (Some e3, arch')
      \<longrightarrow> set_status Parameters_set State_set Archiving_Node_set_status calibrate_fn d n
            = (Some e3, n\<lparr>archiving_node := arch'\<rparr>)
          \<and> P_' (n\<lparr>archiving_node := arch'\<rparr>) = P_' n
          \<and> S_' (n\<lparr>archiving_node := arch'\<rparr>) = S_' n)
   \<and> (Parameters_set d (P_' n) = Inr ptmp \<and> State_set d ptmp (S_' n) = Inr stmp
        \<and> Archiving_Node_set_status d (archiving_node n) = (None, arch')
      \<longrightarrow> set_status Parameters_set State_set Archiving_Node_set_status calibrate_fn d n
            = calibrate_fn (n\<lparr>archiving_node := arch', P_' := ptmp, S_' := stmp\<rparr>)
          \<and> P_' (n\<lparr>archiving_node := arch', P_' := ptmp, S_' := stmp\<rparr>) = ptmp
          \<and> S_' (n\<lparr>archiving_node := arch', P_' := ptmp, S_' := stmp\<rparr>) = stmp)"
  by (simp add: set_status_def)

text \<open>
  Claim C1 as it is stated fails: a dictionary that both setters accept, but the
  archiving node rejects, leaves the old Parameters in place and \<^verbatim>\<open>calibrate\<close>
  does not run.
\<close>

theorem set_status_commit_counterexample:
  "example_Parameters_set [(''C_m'', 300), (''tau_minus'', - 1)] (P_' example_neuron)
     = Inr (example_parameters\<lparr>C_m := 300\<rparr>)
   \<and> example_State_set [(''C_m'', 300), (''tau_minus'', - 1)] (example_parameters\<lparr>C_m := 300\<rparr>)
       (S_' example_neuron) = Inr example_state
   \<and> set_status example_Parameters_set example_State_set example_Archiving_Node_set_status
       (calibrate example_normalisation_factor (1 / 1000))
       [(''C_m'', 300), (''tau_minus'', - 1)] example_neuron
     = (Some (BadProperty ''All time constants must be strictly positive.''), example_neuron)
   \<and> P_' example_neuron \<noteq> example_parameters\<lparr>C_m := 300\<rparr>"
  by (simp add: set_status_def setter_defs example_neuron_def example_state_def
        example_parameters_def)

theorem set_status_commit_or_keep_witness:
  "set_status example_Parameters_set example_State_set example_Archiving_Node_set_status
       (calibrate example_normalisation_factor (1 / 1000))
       [(''C_m'', - 1)] example_neuron
     = (Some (BadProperty ''Capacitance must be strictly positive.''), example_neuron)
   \<and> set_status example_Parameters_set example_State_set example_Archiving_Node_set_status
       (calibrate example_normalisation_factor (1 / 1000))
       [(''C_m'', 300), (''Act_m'', - 1)] example_neuron
     = (Some (BadProperty ''All (in)activation variables must be non-negative.''), example_neuron)
   \<and> set_status example_Parameters_set example_State_set example_Archiving_Node_set_status
       (calibrate example_normalisation_factor (1 / 1000))
       [(''C_m'', 300), (''tau_minus'', - 1)] example_neuron
     = (Some (BadProperty ''All time constants must be strictly positive.''), example_neuron)
   \<and> set_status example_Parameters_set example_State_set example_Archiving_Node_set_status
       (calibrate example_normalisation_factor (1 / 1000))
       [(''C_m'', 300), (''tau_minus'', 30)] example_neuron
     = calibrate example_normalisation_factor (1 / 1000)
         (example_neuron\<lparr>archiving_node := \<lparr>tau_minus = 30, spike_lags = []\<rparr>,
                          P_' := example_parameters\<lparr>C_m := 300\<rparr>, S_' := example_state\<rparr>)"
proof -
  let ?cal = "calibrate example_normalisation_factor (1 / 1000)
                :: example_neuron_type \<Rightarrow> kernel_exception option \<times> example_neuron_type"
  let ?p = "example_parameters\<lparr>C_m := 300\<rparr>"
  have p1: "example_Parameters_set [(''C_m'', - 1)] (P_' example_neuron)
              = Inl (BadProperty ''Capacitance must be strictly positive.'')"
    by (simp add: setter_defs)
  have p2: "example_Parameters_set [(''C_m'', 300), (''Act_m'', - 1)] (P_' example_neuron) = Inr ?p"
    by (simp add: setter_defs example_neuron_def)
  have s2: "example_State_set [(''C_m'', 300), (''Act_m'', - 1)] ?p (S_' example_neuron)
              = Inl (BadProperty ''All (in)activation variables must be non-negative.'')"
    by (simp add: setter_defs example_neuron_def example_state_def)
  have p3: "example_Parameters_set [(''C_m'', 300), (''tau_minus'', - 1)] (P_' example_neuron) = Inr ?p"
    by (simp add: setter_defs example_neuron_def)
  have s3: "example_State_set [(''C_m'', 300), (''tau_minus'', - 1)] ?p (S_' example_neuron)
              = Inr example_state"
    by (simp add: setter_defs example_neuron_def example_state_def)
  have a3: "example_Archiving_Node_set_status [(''C_m'', 300), (''tau_minus'', - 1)]
              (archiving_node example_neuron)
              = (Some (BadProperty ''All time constants must be strictly positive.''),
                 \<lparr>tau_minus = 20, spike_lags = []\<rparr>)"
    by (simp add: setter_defs example_neuron_def)
  have p4: "example_Parameters_set [(''C_m'', 300), (''tau_minus'', 30)] (P_' example_neuron) = Inr ?p"
    by (simp add: setter_defs example_neuron_def)
  have s4: "example_State_set [(''C_m'', 300), (''tau_minus'', 30)] ?p (S_' example_neuron)
              = Inr example_state"
    by (simp add: setter_defs example_neuron_def example_state_def)
  have a4: "example_Archiving_Node_set_status [(''C_m'', 300), (''tau_minus'', 30)]
              (archiving_node example_neuron) = (None, \<lparr>tau_minus = 30, spike_lags = []\<rparr>)"
    by (simp add: setter_defs example_neuron_def)
  have same: "example_neuron\<lparr>archiving_node := \<lparr>tau_minus = 20, spike_lags = []\<rparr>\<rparr> = example_neuron"
    by (simp add: example_neuron_def)
  note inst = set_status_commit_or_keep
    [where Parameters_set = example_Parameters_set and State_set = example_State_set
       and Archiving_Node_set_status = example_Archiving_Node_set_status
       and calibrate_fn = ?cal and n = example_neuron]
  from inst [where d = "[(''C_m'', - 1)]"] p1
       inst [where d = "[(''C_m'', 300), (''Act_m'', - 1)]"] p2 s2
       inst [where d = "[(''C_m'', 300), (''tau_minus'', - 1)]"] p3 s3 a3
       inst [where d = "[(''C_m'', 300), (''tau_minus'', 30)]"] p4 s4 a4
       same
  show ?thesis by simp
qed

section \<open>Waveform relaxation passes\<close>

text \<open>
  Claim C2. Whenever \<^verbatim>\<open>wfr_update\<close> returns, with either verdict, the State of the
  neuron is the one before the call.
\<close>

theorem wfr_update_restores_state:
  assumes "wfr_update upd origin from to n = (Inr converged, n')"
  shows "S_' n' = S_' n"
  using assms
  by (auto simp add: wfr_update_def Let_def split: prod.splits sum.splits)

theorem wfr_update_restores_state_witness:
  "fst (wfr_update (update_' falling_integrate example_emit example_record_iterate) () 0 2
          example_neuron) = Inr False
   \<and> S_' (snd (wfr_update (update_' falling_integrate example_emit example_record_iterate) () 0 2
          example_neuron)) = S_' example_neuron"
proof -
  let ?w = "wfr_update (update_' falling_integrate example_emit example_record_iterate) () 0 2
              example_neuron"
  have "fst ?w = Inr False"
    using ex_wfr_pass by (auto simp add: wfr_update_def Let_def split: prod.splits sum.splits)
  then have "?w = (Inr False, snd ?w)" by (metis prod.collapse)
  from wfr_update_restores_state [OF this] \<open>fst ?w = Inr False\<close> show ?thesis by simp
qed

text \<open>
  Claim C9. \<^verbatim>\<open>update\<close> is \<^verbatim>\<open>update_\<close> with the flag false, its verdict dropped;
  \<^verbatim>\<open>wfr_update\<close> returns true exactly when \<^verbatim>\<open>update_\<close> with the flag true returns
  false, and false exactly when it returns true; an exception of \<^verbatim>\<open>update_\<close> is the
  exception of either entry point; the object after \<^verbatim>\<open>wfr_update\<close> is the one
  \<^verbatim>\<open>update_\<close> left with the saved State put back.
\<close>

theorem update_entry_points:
  "update upd origin from to n
     = (case_sum Some (\<lambda>b. None) (fst (upd origin from to False n)),
        snd (upd origin from to False n))
   \<and> (fst (wfr_update upd origin from to n) = Inr True
        \<longleftrightarrow> fst (upd origin from to True n) = Inr False)
   \<and> (fst (wfr_update upd origin from to n) = Inr False
        \<longleftrightarrow> fst (upd origin from to True n) = Inr True)
   \<and> (\<forall>e. fst (wfr_update upd origin from to n) = Inl e
        \<longleftrightarrow> fst (upd origin from to True n) = Inl e)
   \<and> snd (wfr_update upd origin from to n)
       = (case fst (upd origin from to True n) of
            Inl e \<Rightarrow> snd (upd origin from to True n)
          | Inr b \<Rightarrow> (snd (upd origin from to True n))\<lparr>S_' := S_' n\<rparr>)"
  by (auto simp add: update_def wfr_update_def Let_def split: prod.splits sum.splits)

section \<open>Connection requests\<close>

text \<open>
  Claim C7, as the code has it. For each of the four event types a request on a
  receptor port other than 0 is rejected with UnknownReceptorType and the neuron is
  unchanged. On port 0 a SpikeEvent, a CurrentEvent and a GapJunctionEvent are
  accepted with port 0 and the neuron unchanged; a DataLoggingRequest is passed to
  the logger, whose result is the result of the call and whose new state is kept
  in the Buffers.
\<close>

theorem handles_test_event_ports:
  "(receptor_type \<noteq> 0
      \<longrightarrow> handles_test_event connect ev receptor_type n
            = (Inl (UnknownReceptorType receptor_type (name n)), n))
   \<and> (ev = SpikeEvent \<or> ev = CurrentEvent \<or> ev = GapJunctionEvent
      \<longrightarrow> handles_test_event connect ev 0 n = (Inr 0, n))
   \<and> handles_test_event connect (DataLoggingRequest dlr) 0 n
       = (fst (connect dlr (logger_' (B_' n))),
          n\<lparr>B_' := (B_' n)\<lparr>logger_' := snd (connect dlr (logger_' (B_' n)))\<rparr>\<rparr>)"
  by (cases ev) (auto split: prod.splits)

text \<open>
  Claim C7 as it is stated fails for a DataLoggingRequest on port 0: with a logger
  that numbers its devices from 1 the port returned is 1 and the Buffers change.
\<close>

theorem handles_test_event_ports_counterexample:
  "fst (handles_test_event example_connect (DataLoggingRequest 7) 0 example_neuron) = Inr 1
   \<and> fst (handles_test_event example_connect (DataLoggingRequest 7) 0 example_neuron) \<noteq> Inr 0
   \<and> logger_' (B_' (snd (handles_test_event example_connect (DataLoggingRequest 7) 0
                          example_neuron))) = [7]
   \<and> logger_' (B_' example_neuron) = []"
  by (simp add: example_connect_def example_neuron_def)

theorem handles_test_event_ports_witness:
  "handles_test_event example_connect (DataLoggingRequest 7) 1 example_neuron
     = (Inl (UnknownReceptorType 1 ''hh_cond_beta_gap_traub''), example_neuron)
   \<and> handles_test_event example_connect GapJunctionEvent 0 example_neuron
     = (Inr 0, example_neuron)"
proof -
  have "(1 :: rport) \<noteq> 0" by simp
  moreover have "(GapJunctionEvent :: nat test_event) = SpikeEvent \<or>
                 (GapJunctionEvent :: nat test_event) = CurrentEvent \<or>
                 (GapJunctionEvent :: nat test_event) = GapJunctionEvent" by simp
  ultimately show ?thesis
    using handles_test_event_ports
            [where receptor_type = 1 and connect = example_connect
               and ev = "DataLoggingRequest 7" and n = example_neuron]
          handles_test_event_ports
            [where connect = example_connect and ev = GapJunctionEvent and n = example_neuron]
    by (simp add: example_neuron_def)
qed

section \<open>Spike detection and refractoriness\<close>

text \<open>
  Claim C3. In the Active state a spike is emitted at the step boundary exactly
  when the potential is at or above \<open>V_T + 30\<close> and strictly below the stored
  potential of the previous step. For one committing step whose integration
  succeeds: \<open>emit\<close> is applied once when the new potential passes that test
  against the potential before the step, and not at all otherwise.
\<close>

theorem spike_iff_threshold_and_falling:
  "(\<not> 0 <s r_' (S_' m)
      \<longrightarrow> (fst (spike_detection m)
            \<longleftrightarrow> V_T (P_' m) + 30 \<le> y_' (S_' m) V_M \<and> y_' (S_' m) V_M < U_old_' (V_' m)))
   \<and> (\<not> 0 <s r_' (S_' n) \<and> integrate (begin_step lag n) = Some (y', h')
      \<longrightarrow> archiving_node (snd (update_step integrate emit record_iterate origin False lag n))
            = (if V_T (P_' n) + 30 \<le> y' V_M \<and> y' V_M < y_' (S_' n) V_M
               then emit origin lag (archiving_node n)
               else archiving_node n))"
proof (intro conjI impI)
  assume "\<not> 0 <s r_' (S_' m)"
  then show "fst (spike_detection m)
            \<longleftrightarrow> V_T (P_' m) + 30 \<le> y_' (S_' m) V_M \<and> y_' (S_' m) V_M < U_old_' (V_' m)"
    by (simp add: spike_detection_def)
next
  assume a: "\<not> 0 <s r_' (S_' n) \<and> integrate (begin_step lag n) = Some (y', h')"
  then have step: "integrate (begin_step lag n) = Some (y', h')" by simp
  from a show "archiving_node (snd (update_step integrate emit record_iterate origin False lag n))
            = (if V_T (P_' n) + 30 \<le> y' V_M \<and> y' V_M < y_' (S_' n) V_M
               then emit origin lag (archiving_node n)
               else archiving_node n)"
    by (simp add: update_step_commit [where integrate = integrate, OF step]
          spike_detection_def accept_step_def begin_step_fields)
qed

theorem spike_iff_threshold_and_falling_witness:
  "\<not> 0 <s r_' (S_' example_neuron)
   \<and> fst (spike_detection example_neuron)
   \<and> archiving_node (snd (update_step falling_integrate example_emit example_record_iterate ()
                             False 0 example_neuron))
       = \<lparr>tau_minus = 20, spike_lags = [0]\<rparr>"
proof -
  let ?y = "(y_' (S_' (begin_step 0 example_neuron)))
              (V_M := y_' (S_' (begin_step 0 example_neuron)) V_M - 1)"
  let ?h = "IntegrationStep_' (B_' (begin_step 0 example_neuron))"
  have active: "\<not> 0 <s r_' (S_' example_neuron)"
    by (simp add: example_defs)
  have st: "falling_integrate (begin_step 0 example_neuron) = Some (?y, ?h)"
    by (simp add: falling_integrate_def)
  from spike_iff_threshold_and_falling
         [where m = example_neuron and n = example_neuron and integrate = falling_integrate
            and lag = 0 and y' = ?y and h' = ?h and emit = example_emit
            and record_iterate = example_record_iterate and origin = "()"]
       active st
  show ?thesis by (simp add: begin_step_fields example_defs)
qed




section \<open>Failure of the integrator\<close>

text \<open>
  Claim C8. When the steps of a pass before \<open>lag\<close> have succeeded and the
  integrator finds no accepted sub-step at \<open>lag\<close>, \<^verbatim>\<open>update_\<close> ends with the
  exception NumericalFailure instead of a verdict, the potential of the neuron is
  the one the last successful step left (no value is put in its place), and both
  entry points pass the exception on: \<^verbatim>\<open>update\<close> fails with it and \<^verbatim>\<open>wfr_update\<close>
  reports no verdict.
\<close>

theorem integration_failure_escalates:
  assumes before: "from \<le>s lag" and inside: "lag <s to"
    and reached: "update_loop integrate emit record_iterate origin wfr from lag False n
                    = (Inr acc, n_lag)"
    and failure: "integrate (begin_step lag n_lag) = None"
  shows "update_' integrate emit record_iterate origin from to wfr n
           = (Inl (NumericalFailure (name n_lag)), begin_step lag n_lag)
       \<and> y_' (S_' (begin_step lag n_lag)) V_M = y_' (S_' n_lag) V_M
       \<and> (\<not> wfr \<longrightarrow> update (update_' integrate emit record_iterate) origin from to n
                       = (Some (NumericalFailure (name n_lag)), begin_step lag n_lag))
       \<and> (wfr \<longrightarrow> wfr_update (update_' integrate emit record_iterate) origin from to n
                     = (Inl (NumericalFailure (name n_lag)), begin_step lag n_lag))"
proof -
  have le: "lag \<le>s to" using inside by (simp add: word_sless_alt word_sle_eq)
  have "update_loop integrate emit record_iterate origin wfr lag to acc n_lag
          = (Inl (NumericalFailure (name n_lag)), begin_step lag n_lag)"
    using inside
      update_step_fail [where integrate = integrate and emit = emit
        and record_iterate = record_iterate and origin = origin and wfr = wfr, OF failure]
    by (simp add: update_loop.simps [of _ _ _ _ _ lag])
  with update_loop_split [OF before le, of integrate emit record_iterate origin wfr False n]
    reached
  have main: "update_' integrate emit record_iterate origin from to wfr n
           = (Inl (NumericalFailure (name n_lag)), begin_step lag n_lag)"
    by (simp add: update_'_def)
  have "wfr_update (update_' integrate emit record_iterate) origin from to n
           = (Inl (NumericalFailure (name n_lag)), begin_step lag n_lag)" if "wfr"
    using main that by (simp add: wfr_update_def)
  moreover have "update (update_' integrate emit record_iterate) origin from to n
           = (Some (NumericalFailure (name n_lag)), begin_step lag n_lag)" if "\<not> wfr"
    using main that by (simp add: update_def)
  ultimately show ?thesis
    using main by (simp add: begin_step_fields)
qed

theorem integration_failure_escalates_witness:
  "fst (update (update_' failing_integrate example_emit example_record_iterate) () 0 2
          example_neuron) = Some (NumericalFailure ''hh_cond_beta_gap_traub'')
   \<and> y_' (S_' (snd (update (update_' failing_integrate example_emit example_record_iterate) () 0 2
          example_neuron))) V_M = - 16"
proof -
  let ?first = "update_loop failing_integrate example_emit example_record_iterate () False 0 1
                  False example_neuron"
  have "fst ?first = Inr False"
    by (simp add: step_defs example_defs)
  then have reached: "?first = (Inr False, snd ?first)" by (metis prod.collapse)
  have v: "y_' (S_' (snd ?first)) V_M = - 16" and nm: "name (snd ?first) = ''hh_cond_beta_gap_traub''"
    by (simp_all add: step_defs example_defs)
  then have failure: "failing_integrate (begin_step 1 (snd ?first)) = None"
    by (simp add: failing_integrate_def begin_step_fields)
  have before: "(0 :: 64 word) \<le>s 1" and inside: "(1 :: 64 word) <s 2"
    by (simp_all add: word_sle_eq word_sless_alt)
  from integration_failure_escalates [OF before inside reached failure] v nm
  show ?thesis by (simp add: begin_step_fields)
qed

section \<open>Calibration\<close>

text \<open>
  Claim C6. For a positive step size: when the refractory time divided by the
  step size is within the tolerance of its nearest integer, \<^verbatim>\<open>calibrate\<close> succeeds,
  the refractory count is that integer (read as a signed value when it fits the 32
  bits of the member) and State, Parameters and Buffers are untouched. Otherwise
  \<^verbatim>\<open>calibrate\<close> signals an error and the whole neuron, the State with it, is as
  before.
\<close>

theorem calibrate_refractory_counts:
  assumes "0 < step_' (B_' n)"
  shows "(\<bar>t_ref_' (P_' n) / step_' (B_' n)
            - of_int (round (t_ref_' (P_' n) / step_' (B_' n)))\<bar> \<le> tolerance
      \<longrightarrow> fst (calibrate get_normalisation_factor tolerance n) = None
          \<and> refractory_counts_' (V_' (snd (calibrate get_normalisation_factor tolerance n)))
              = of_int (round (t_ref_' (P_' n) / step_' (B_' n)))
          \<and> (- (2 ^ 31) \<le> round (t_ref_' (P_' n) / step_' (B_' n))
               \<and> round (t_ref_' (P_' n) / step_' (B_' n)) < 2 ^ 31
             \<longrightarrow> sint (refractory_counts_' (V_' (snd (calibrate get_normalisation_factor
                                                        tolerance n))))
                   = round (t_ref_' (P_' n) / step_' (B_' n)))
          \<and> S_' (snd (calibrate get_normalisation_factor tolerance n)) = S_' n
          \<and> P_' (snd (calibrate get_normalisation_factor tolerance n)) = P_' n
          \<and> B_' (snd (calibrate get_normalisation_factor tolerance n)) = B_' n)
   \<and> (\<not> \<bar>t_ref_' (P_' n) / step_' (B_' n)
            - of_int (round (t_ref_' (P_' n) / step_' (B_' n)))\<bar> \<le> tolerance
      \<longrightarrow> calibrate get_normalisation_factor tolerance n
            = (Some (BadProperty ''Refractory time must be a multiple of the step size.''), n))"
  by (simp add: calibrate_def Let_def sint_sbintrunc' signed_take_bit_int_eq_self)

theorem calibrate_refractory_counts_witness:
  "0 < step_' (B_' example_neuron)
   \<and> fst (calibrate example_normalisation_factor (1 / 1000) example_neuron) = None
   \<and> sint (refractory_counts_' (V_' (snd (calibrate example_normalisation_factor (1 / 1000)
                                            example_neuron)))) = 20
   \<and> S_' (snd (calibrate example_normalisation_factor (1 / 1000) example_neuron))
       = S_' example_neuron
   \<and> 0 < step_' (B_' coarse_neuron)
   \<and> calibrate example_normalisation_factor (1 / 1000) coarse_neuron
       = (Some (BadProperty ''Refractory time must be a multiple of the step size.''),
          coarse_neuron)"
proof -
  have pos: "0 < step_' (B_' example_neuron)" and posc: "0 < step_' (B_' coarse_neuron)"
    by (simp_all add: example_defs)
  have q: "t_ref_' (P_' example_neuron) / step_' (B_' example_neuron) = 20"
    by (simp add: example_defs)
  have whole: "\<bar>t_ref_' (P_' example_neuron) / step_' (B_' example_neuron)
                 - of_int (round (t_ref_' (P_' example_neuron) / step_' (B_' example_neuron)))\<bar>
               \<le> 1 / 1000"
    by (simp add: q)
  have range: "- (2 ^ 31) \<le> round (t_ref_' (P_' example_neuron) / step_' (B_' example_neuron))
               \<and> round (t_ref_' (P_' example_neuron) / step_' (B_' example_neuron)) < 2 ^ 31"
    by (simp add: q)
  have qc: "t_ref_' (P_' coarse_neuron) / step_' (B_' coarse_neuron) = 20 / 3"
    by (simp add: example_defs)
  have "round (20 / 3 :: real) = 7"
    by (rule round_unique') simp
  then have broken: "\<not> \<bar>t_ref_' (P_' coarse_neuron) / step_' (B_' coarse_neuron)
                 - of_int (round (t_ref_' (P_' coarse_neuron) / step_' (B_' coarse_neuron)))\<bar>
               \<le> 1 / 1000"
    by (simp add: qc)
  from calibrate_refractory_counts
         [OF pos, of "1 / 1000" example_normalisation_factor] whole range q
       calibrate_refractory_counts
         [OF posc, of "1 / 1000" example_normalisation_factor] broken
       pos posc
  show ?thesis by simp
qed

section \<open>Properties of cm\_main\<close>

lemma sint_of_nat_port:
  assumes "k < 2 ^ 63"
  shows "sint (of_nat k :: port) = int k"
proof -
  have "int k < 2 ^ 63" using assms by (simp add: of_nat_less_numeral_power_cancel_iff)
  then show ?thesis
    by (simp add: signed_of_nat signed_take_bit_int_eq_self)
qed

text \<open>
  Claim C10. A SpikeEvent connection on receptor port \<open>r\<close> is accepted exactly when
  \<open>0 \<le> r < syn_receptors.size()\<close>, the port returned is \<open>r\<close> itself, and every
  other request is rejected with IncompatibleReceptorType; with no receptors
  every request is rejected. A vector of shared pointers holds fewer than
  \<open>2 ^ 63\<close> elements, so the cast of its size does not wrap.
\<close>

theorem cm_spike_port_accept_iff:
  assumes "length (syn_receptors n) < 2 ^ 63"
  shows "(0 \<le> sint r \<and> sint r < int (length (syn_receptors n))
            \<longrightarrow> cm_handles_test_event_SpikeEvent r n = Inr r)
       \<and> (\<not> (0 \<le> sint r \<and> sint r < int (length (syn_receptors n)))
            \<longrightarrow> cm_handles_test_event_SpikeEvent r n
                  = Inl (IncompatibleReceptorType r (cm_name n) ''SpikeEvent''))
       \<and> (syn_receptors n = []
            \<longrightarrow> cm_handles_test_event_SpikeEvent r n
                  = Inl (IncompatibleReceptorType r (cm_name n) ''SpikeEvent''))"
proof -
  have sz: "sint (of_nat (length (syn_receptors n)) :: port) = int (length (syn_receptors n))"
    using assms by (rule sint_of_nat_port)
  show ?thesis
    by (auto simp add: cm_handles_test_event_SpikeEvent_def word_sless_alt sz)
qed

theorem cm_spike_port_accept_iff_witness:
  "length (syn_receptors cm_three) < 2 ^ 63
   \<and> cm_handles_test_event_SpikeEvent 2 cm_three = Inr 2
   \<and> cm_handles_test_event_SpikeEvent 3 cm_three
       = Inl (IncompatibleReceptorType 3 ''cm_main'' ''SpikeEvent'')
   \<and> cm_handles_test_event_SpikeEvent (- 1) cm_three
       = Inl (IncompatibleReceptorType (- 1) ''cm_main'' ''SpikeEvent'')
   \<and> cm_handles_test_event_SpikeEvent 0 cm_empty
       = Inl (IncompatibleReceptorType 0 ''cm_main'' ''SpikeEvent'')"
proof -
  have three: "length (syn_receptors cm_three) < 2 ^ 63"
    by (simp add: cm_three_def cm_empty_def)
  have empty: "length (syn_receptors cm_empty) < 2 ^ 63"
    by (simp add: cm_empty_def)
  show ?thesis
    using cm_spike_port_accept_iff [OF three, of 2]
          cm_spike_port_accept_iff [OF three, of 3]
          cm_spike_port_accept_iff [OF three, of "- 1"]
          cm_spike_port_accept_iff [OF empty, of 0]
    by (simp add: cm_three_def cm_empty_def)
qed

end
